theory Spec2Isabelle
  imports Complex_Main
begin

section \<open>Values of the program\<close>

text \<open>
  The pricing code of \<^verbatim>\<open>pricing/services.py\<close> and \<^verbatim>\<open>pricing/views.py\<close> works on
  Python floats, Python ints and on dictionaries decoded from JSON responses.

  \<^item> A Python \<^verbatim>\<open>float\<close> is modelled by a \<^typ>\<open>real\<close>: arithmetic is exact, so the
    rounding of IEEE doubles, infinities and NaN are outside the model. A decimal
    literal of the source (\<^verbatim>\<open>273.15\<close>) is the same decimal as a real.
  \<^item> A Python \<^verbatim>\<open>int\<close> is an \<^typ>\<open>int\<close>.
  \<^item> A decoded JSON document is a value of the datatype \<open>json\<close>; a dictionary is an
    association list read with \<^const>\<open>map_of\<close>.
  \<^item> An exception is a value of \<open>py_error\<close>, returned on the left of a sum.
\<close>

datatype json =
    JNull
  | JBool bool
  | JNum real
  | JStr string
  | JList "json list"
  | JDict "(string \<times> json) list"

datatype py_error =
    TypeError
  | AttributeError
  | IndexError
  | KeyError
  | ValueError

text \<open>\<^verbatim>\<open>d.get(key, default)\<close>: only a dictionary has the method.\<close>

fun dict_get :: "json \<Rightarrow> string \<Rightarrow> json \<Rightarrow> py_error + json" where
  "dict_get (JDict kvs) key dflt =
     Inr (case map_of kvs key of None \<Rightarrow> dflt | Some v \<Rightarrow> v)"
| "dict_get _ key dflt = Inl AttributeError"

text \<open>
  A value used as an operand of float arithmetic: numbers are, and so are booleans
  (\<^verbatim>\<open>True\<close> counts as 1); anything else raises \<^verbatim>\<open>TypeError\<close>.
\<close>

fun as_number :: "json \<Rightarrow> py_error + real" where
  "as_number (JNum r) = Inr r"
| "as_number (JBool b) = Inr (if b then 1 else 0)"
| "as_number _ = Inl TypeError"

text \<open>\<^verbatim>\<open>v[0]\<close>. The keys of a decoded JSON dictionary are strings, so \<^verbatim>\<open>d[0]\<close> finds none.\<close>

fun index0 :: "json \<Rightarrow> py_error + json" where
  "index0 (JList []) = Inl IndexError"
| "index0 (JList (x # xs)) = Inr x"
| "index0 (JStr []) = Inl IndexError"
| "index0 (JStr (c # cs)) = Inr (JStr [c])"
| "index0 (JDict kvs) = Inl KeyError"
| "index0 _ = Inl TypeError"

text \<open>Truth value of a JSON value in a condition (\<^verbatim>\<open>if v:\<close>).\<close>

fun truthy :: "json \<Rightarrow> bool" where
  "truthy JNull = False"
| "truthy (JBool b) = b"
| "truthy (JNum r) = (r \<noteq> 0)"
| "truthy (JStr s) = (s \<noteq> [])"
| "truthy (JList xs) = (xs \<noteq> [])"
| "truthy (JDict kvs) = (kvs \<noteq> [])"

text \<open>
  The builtin \<^verbatim>\<open>min\<close> on a list keeps the first element and replaces it by a later one
  that is strictly smaller; on an empty list it raises \<^verbatim>\<open>ValueError\<close>. The builtin
  \<^verbatim>\<open>max(a, b)\<close> returns \<open>a\<close> unless \<open>b\<close> is strictly greater.
\<close>

fun py_min_from :: "real \<Rightarrow> real list \<Rightarrow> real" where
  "py_min_from m [] = m"
| "py_min_from m (x # xs) = py_min_from (if x < m then x else m) xs"

fun py_min :: "real list \<Rightarrow> py_error + real" where
  "py_min [] = Inl ValueError"
| "py_min (x # xs) = Inr (py_min_from x xs)"

definition py_max :: "real \<Rightarrow> real \<Rightarrow> real" where
  "py_max a b = (if b > a then b else a)"

section \<open>services.py\<close>

text \<open>\<^verbatim>\<open>WeatherService.kelvin_to_fahrenheit\<close>.\<close>

definition kelvin_to_fahrenheit :: "real \<Rightarrow> real" where
  "kelvin_to_fahrenheit kelvin = (kelvin - 273.15) * 9 / 5 + 32"

text \<open>\<^verbatim>\<open>GooglePlacesService.get_place_busy_times\<close>: the mock value.\<close>

definition get_place_busy_times :: "string \<Rightarrow> int" where
  "get_place_busy_times place_id = 75"

text \<open>
  \<^verbatim>\<open>PricingService.calculate_price\<close>. Its local variables \<^verbatim>\<open>temp_f\<close>,
  \<^verbatim>\<open>weather_conditions\<close> and \<^verbatim>\<open>bad_weather\<close> are functions of the weather dictionary;
  each can raise.
\<close>

definition temp_f :: "json \<Rightarrow> py_error + real" where
  "temp_f weather_data =
     (case dict_get weather_data ''temp'' (JNum 293.15) of
        Inl e \<Rightarrow> Inl e
      | Inr temp_kelvin \<Rightarrow>
          (case as_number temp_kelvin of
             Inl e \<Rightarrow> Inl e
           | Inr k \<Rightarrow> Inr ((k - 273.15) * 9 / 5 + 32)))"

definition weather_conditions :: "json \<Rightarrow> py_error + json" where
  "weather_conditions weather_data =
     (case dict_get weather_data ''weather'' (JList [JDict [(''main'', JStr ''Clear'')]]) of
        Inl e \<Rightarrow> Inl e
      | Inr ws \<Rightarrow>
          (case index0 ws of
             Inl e \<Rightarrow> Inl e
           | Inr w \<Rightarrow> dict_get w ''main'' (JStr ''Clear'')))"

definition bad_weather :: "json \<Rightarrow> bool" where
  "bad_weather cond = (cond \<in> set [JStr ''Rain'', JStr ''Snow'', JStr ''Thunderstorm''])"

definition calculate_price :: "real \<Rightarrow> json \<Rightarrow> int \<Rightarrow> real list \<Rightarrow> py_error + real" where
  "calculate_price base_price weather_data busy_level competitor_prices =
     (if competitor_prices = [] then Inr base_price
      else
        case py_min competitor_prices of
          Inl e \<Rightarrow> Inl e
        | Inr lowest_price \<Rightarrow>
            (case temp_f weather_data of
               Inl e \<Rightarrow> Inl e
             | Inr tf \<Rightarrow>
                 (case weather_conditions weather_data of
                    Inl e \<Rightarrow> Inl e
                  | Inr cond \<Rightarrow>
                      (let busier_than_usual = (busy_level > 70) in
                       if (tf < 45 \<or> bad_weather cond) \<and> busier_than_usual
                       then
                         (let markup = 1.1 + real_of_int (busy_level - 70) / 100
                          in Inr (py_max (lowest_price * markup) base_price))
                       else Inr lowest_price))))"

section \<open>views.py\<close>

text \<open>
  \<^verbatim>\<open>PricingView.get\<close> builds the list \<^verbatim>\<open>menu_items\<close> inside a \<^verbatim>\<open>try\<close> block whose
  \<^verbatim>\<open>except Exception\<close> clause renders the error page. Which exception was raised makes
  no difference there, so the computations of the block return an option: \<open>None\<close>
  stands for an exception raised in the block.
\<close>

record menu_item =
  name :: string
  price :: real

record priced_item =
  item_name :: string
  original_price :: real
  new_price :: real
  price_change :: real

definition sample_menu_items :: "menu_item list" where
  "sample_menu_items =
     [\<lparr>name = ''Butter Chicken'', price = 16.99\<rparr>,
      \<lparr>name = ''Chicken Tikka Masala'', price = 15.99\<rparr>,
      \<lparr>name = ''Vegetable Biryani'', price = 14.99\<rparr>,
      \<lparr>name = ''Naan'', price = 3.99\<rparr>]"

text \<open>
  The values the loop \<^verbatim>\<open>for restaurant in v[:5]\<close> runs over: the first five elements of
  a list, the first five characters of a string; any other value cannot be sliced.
\<close>

fun slice5 :: "json \<Rightarrow> json list option" where
  "slice5 (JList xs) = Some (take 5 xs)"
| "slice5 (JStr s) = Some (map (\<lambda>c. JStr [c]) (take 5 s))"
| "slice5 _ = None"

text \<open>
  The inner loop over the restaurants, with the list \<^verbatim>\<open>competitor_prices\<close> built so far
  as accumulator. \<^verbatim>\<open>restaurant.get('price_level')\<close> defaults to \<^verbatim>\<open>None\<close>.
\<close>

fun competitor_prices_loop :: "real \<Rightarrow> json list \<Rightarrow> real list \<Rightarrow> real list option" where
  "competitor_prices_loop item_price [] competitor_prices = Some competitor_prices"
| "competitor_prices_loop item_price (restaurant # rest) competitor_prices =
     (case dict_get restaurant ''price_level'' JNull of
        Inl e \<Rightarrow> None
      | Inr price_level \<Rightarrow>
          if truthy price_level then
            (case as_number price_level of
               Inl e \<Rightarrow> None
             | Inr level \<Rightarrow>
                 competitor_prices_loop item_price rest
                   (competitor_prices @ [item_price * (level / 2)]))
          else competitor_prices_loop item_price rest competitor_prices)"

text \<open>The competitor prices derived for one item (lines 86 to 90 of the view).\<close>

definition derived_competitor_prices :: "real \<Rightarrow> json \<Rightarrow> real list option" where
  "derived_competitor_prices item_price nearby_restaurants =
     (case dict_get nearby_restaurants ''results'' (JList []) of
        Inl e \<Rightarrow> None
      | Inr results \<Rightarrow>
          (case slice5 results of
             None \<Rightarrow> None
           | Some restaurants \<Rightarrow> competitor_prices_loop item_price restaurants []))"

text \<open>
  The loop over the menu items, with the list \<^verbatim>\<open>menu_items\<close> built so far as
  accumulator. The division by the item's price raises \<^verbatim>\<open>ZeroDivisionError\<close> when the
  price is zero.
\<close>

fun menu_items_loop ::
  "menu_item list \<Rightarrow> json \<Rightarrow> json \<Rightarrow> int \<Rightarrow> priced_item list \<Rightarrow> priced_item list option" where
  "menu_items_loop [] nearby_restaurants weather_data current_busy_level menu_items =
     Some menu_items"
| "menu_items_loop (item # items) nearby_restaurants weather_data current_busy_level menu_items =
     (case derived_competitor_prices (price item) nearby_restaurants of
        None \<Rightarrow> None
      | Some competitor_prices \<Rightarrow>
          if competitor_prices \<noteq> [] then
            (case dict_get weather_data ''main'' (JDict []) of
               Inl e \<Rightarrow> None
             | Inr main \<Rightarrow>
                 (case calculate_price (price item) main current_busy_level competitor_prices of
                    Inl e \<Rightarrow> None
                  | Inr p \<Rightarrow>
                      if price item = 0 then None
                      else
                        menu_items_loop items nearby_restaurants weather_data current_busy_level
                          (menu_items @
                             [\<lparr>item_name = name item,
                               original_price = price item,
                               new_price = p,
                               price_change = ((p - price item) / price item) * 100\<rparr>])))
          else
            menu_items_loop items nearby_restaurants weather_data current_busy_level menu_items)"

text \<open>
  The list \<^verbatim>\<open>menu_items\<close> of a request (lines 70 to 104): \<open>result\<close> is the \<^verbatim>\<open>'result'\<close>
  dictionary of the restaurant's details, \<open>nearby_restaurants\<close> and \<open>weather_data\<close> are
  the decoded responses of the two services.
\<close>

definition view_menu_items :: "json \<Rightarrow> json \<Rightarrow> json \<Rightarrow> string \<Rightarrow> priced_item list option" where
  "view_menu_items result nearby_restaurants weather_data selected_place_id =
     (let current_busy_level = get_place_busy_times selected_place_id in
      case dict_get result ''photos'' (JList []) of
        Inl e \<Rightarrow> None
      | Inr photos \<Rightarrow>
          if truthy photos
          then menu_items_loop sample_menu_items nearby_restaurants weather_data
                 current_busy_level []
          else Some [])"

text \<open>
  The two notions of the specification's menu aggregation that the loop is compared with.
  An item has competitor data when the list derived for it is not empty. An entry \<open>q\<close>
  is the quote reported for an item when it carries the item's name and price, the price
  recommended by \<^verbatim>\<open>calculate_price\<close> for the item's derived competitor prices, and the
  percentage \<open>(recommended - base) / base * 100\<close>.
\<close>

definition has_competitor_data :: "json \<Rightarrow> menu_item \<Rightarrow> bool" where
  "has_competitor_data nearby_restaurants item =
     (case derived_competitor_prices (price item) nearby_restaurants of
        Some (p # ps) \<Rightarrow> True
      | _ \<Rightarrow> False)"

definition reported_for ::
  "json \<Rightarrow> json \<Rightarrow> int \<Rightarrow> priced_item \<Rightarrow> menu_item \<Rightarrow> bool" where
  "reported_for nearby_restaurants weather_data busy_level q item =
     (item_name q = name item
      \<and> original_price q = price item
      \<and> price item \<noteq> 0
      \<and> price_change q = (new_price q - price item) / price item * 100
      \<and> (case derived_competitor_prices (price item) nearby_restaurants of
            None \<Rightarrow> False
          | Some competitor_prices \<Rightarrow>
              (case dict_get weather_data ''main'' (JDict []) of
                 Inl e \<Rightarrow> False
               | Inr main \<Rightarrow>
                   calculate_price (price item) main busy_level competitor_prices
                     = Inr (new_price q))))"

section \<open>The builtins on reals\<close>

lemma py_min_from_fold: "py_min_from m xs = fold min xs m"
proof (induction xs arbitrary: m)
  case Nil
  show ?case by simp
next
  case (Cons x xs)
  have "(if x < m then x else m) = min x m"
    by (simp add: min_def)
  with Cons.IH [of "min x m"] show ?case by simp
qed

lemma py_min_Min: "xs \<noteq> [] \<Longrightarrow> py_min xs = Inr (Min (set xs))"
proof (cases xs)
  case Nil
  assume "xs \<noteq> []"
  with Nil show ?thesis by simp
next
  case (Cons y ys)
  have "Min (set (y # ys)) = fold min ys y"
    by (rule Min.set_eq_fold)
  with Cons show ?thesis
    by (simp add: py_min_from_fold)
qed

lemma py_max_max: "py_max a b = max a b"
  by (simp add: py_max_def max_def)

section \<open>The branches of calculate_price\<close>

lemma calculate_price_nonempty:
  assumes "competitor_prices \<noteq> []"
    and "temp_f weather_data = Inr tf"
    and "weather_conditions weather_data = Inr cond"
  shows "calculate_price base_price weather_data busy_level competitor_prices =
     Inr (if (tf < 45 \<or> bad_weather cond) \<and> busy_level > 70
          then max (Min (set competitor_prices) * (1.1 + real_of_int (busy_level - 70) / 100))
                 base_price
          else Min (set competitor_prices))"
  using assms by (simp add: calculate_price_def py_min_Min py_max_max Let_def)

lemma temp_f_no_temp:
  "map_of kvs ''temp'' = None \<Longrightarrow> temp_f (JDict kvs) = Inr 68"
  by (simp add: temp_f_def)

lemma weather_conditions_no_weather:
  "map_of kvs ''weather'' = None \<Longrightarrow> weather_conditions (JDict kvs) = Inr (JStr ''Clear'')"
  by (simp add: weather_conditions_def)

lemma not_bad_weather_Clear: "\<not> bad_weather (JStr ''Clear'')"
  by (simp add: bad_weather_def)

text \<open>
  The markup \<open>1.1 + (busy_level - 70) / 100\<close> is 1.4 at a busy level of 100, where the
  comment beside it and the class docstring announce a range of 1.1 to 1.3.
\<close>

lemma markup_at_busy_level_100:
  "calculate_price 1 (JDict [(''weather'', JList [JDict [(''main'', JStr ''Rain'')]])]) 100 [10]
     = Inr 14"
  by (simp add: calculate_price_def temp_f_def weather_conditions_def bad_weather_def
      py_max_def)

section \<open>The loops of the view\<close>

lemma menu_items_loop_acc:
  "menu_items_loop items nearby weather_data busy acc = Some out \<Longrightarrow>
   \<exists>out'. out = acc @ out'
     \<and> list_all2 (reported_for nearby weather_data busy) out'
          (filter (has_competitor_data nearby) items)"
proof (induction items arbitrary: acc out)
  case Nil
  then show ?case by simp
next
  case (Cons item items)
  from Cons.prems obtain cps where cps: "derived_competitor_prices (price item) nearby = Some cps"
    by (auto split: option.splits)
  show ?case
  proof (cases "cps = []")
    case True
    with cps Cons.prems have "menu_items_loop items nearby weather_data busy acc = Some out"
      by simp
    from Cons.IH [OF this] True cps show ?thesis
      by (simp add: has_competitor_data_def)
  next
    case False
    with cps Cons.prems obtain main p where
      main: "dict_get weather_data ''main'' (JDict []) = Inr main" and
      p: "calculate_price (price item) main busy cps = Inr p" and
      nz: "price item \<noteq> 0" and
      rest: "menu_items_loop items nearby weather_data busy
          (acc @ [\<lparr>item_name = name item, original_price = price item, new_price = p,
                   price_change = ((p - price item) / price item) * 100\<rparr>]) = Some out"
      by (auto split: sum.splits if_splits)
    let ?q = "\<lparr>item_name = name item, original_price = price item, new_price = p,
               price_change = ((p - price item) / price item) * 100\<rparr>"
    from Cons.IH [OF rest] obtain out' where
      out': "out = (acc @ [?q]) @ out'" and
      all: "list_all2 (reported_for nearby weather_data busy) out'
          (filter (has_competitor_data nearby) items)"
      by blast
    have q: "reported_for nearby weather_data busy ?q item"
      using cps main p nz by (simp add: reported_for_def)
    have inc: "has_competitor_data nearby item"
      using cps False by (simp add: has_competitor_data_def split: list.splits)
    from out' all q inc show ?thesis
      by simp
  qed
qed

lemma menu_items_loop_returns:
  assumes "\<forall>item\<in>set items. price item \<noteq> 0
             \<and> derived_competitor_prices (price item) nearby \<noteq> None"
    and "dict_get weather_data ''main'' (JDict []) = Inr main"
    and "temp_f main = Inr tf"
    and "weather_conditions main = Inr cond"
  shows "\<exists>out. menu_items_loop items nearby weather_data busy acc = Some out"
  using assms(1)
proof (induction items arbitrary: acc)
  case Nil
  show ?case by simp
next
  case (Cons item items)
  then obtain cps where cps: "derived_competitor_prices (price item) nearby = Some cps"
    and nz: "price item \<noteq> 0"
    by auto
  from Cons.prems have rest: "\<forall>item\<in>set items. price item \<noteq> 0
             \<and> derived_competitor_prices (price item) nearby \<noteq> None"
    by simp
  show ?case
  proof (cases "cps = []")
    case True
    with cps Cons.IH [OF rest, of acc] show ?thesis by simp
  next
    case False
    from calculate_price_nonempty [OF False assms(3) assms(4)]
    obtain p where p: "calculate_price (price item) main busy cps = Inr p"
      by blast
    from Cons.IH [OF rest] cps False assms(2) p nz show ?thesis
      by simp
  qed
qed

lemma menu_items_loop_main_only:
  "dict_get weather_data ''main'' (JDict []) = dict_get weather_data' ''main'' (JDict []) \<Longrightarrow>
   menu_items_loop items nearby weather_data busy acc =
   menu_items_loop items nearby weather_data' busy acc"
  by (induction items arbitrary: acc) (simp_all split: option.splits sum.splits)

lemma list_all2_member:
  "list_all2 P xs ys \<Longrightarrow> x \<in> set xs \<Longrightarrow> \<exists>y\<in>set ys. P x y"
  by (induction rule: list_all2_induct) auto

lemma calculate_price_reads_temp:
  "calculate_price base_price weather_data busy_level competitor_prices = Inr p \<Longrightarrow>
   competitor_prices \<noteq> [] \<Longrightarrow> \<exists>tf. temp_f weather_data = Inr tf"
  by (auto simp: calculate_price_def split: sum.splits)

lemma has_competitor_data_nonempty:
  "has_competitor_data nearby item \<Longrightarrow>
   \<exists>cps. derived_competitor_prices (price item) nearby = Some cps \<and> cps \<noteq> []"
  by (auto simp: has_competitor_data_def split: option.splits list.splits)

text \<open>
  A request on a rainy, mild day: the response of the weather service says Rain, the
  busy level is 75, and every item gets the lowest competitor price with no markup.
\<close>

lemma view_menu_items_rain_example:
  "view_menu_items (JDict [(''photos'', JList [JDict []])])
       (JDict [(''results'', JList [JDict [(''price_level'', JNum 4)]])])
       (JDict [(''main'', JDict [(''temp'', JNum 293.15), (''humidity'', JNum 80)]),
               (''weather'', JList [JDict [(''main'', JStr ''Rain'')]])])
       ''place''
   = Some [\<lparr>item_name = ''Butter Chicken'', original_price = 16.99, new_price = 33.98, price_change = 100\<rparr>,
           \<lparr>item_name = ''Chicken Tikka Masala'', original_price = 15.99, new_price = 31.98, price_change = 100\<rparr>,
           \<lparr>item_name = ''Vegetable Biryani'', original_price = 14.99, new_price = 29.98, price_change = 100\<rparr>,
           \<lparr>item_name = ''Naan'', original_price = 3.99, new_price = 7.98, price_change = 100\<rparr>]"
  by (simp add: view_menu_items_def get_place_busy_times_def sample_menu_items_def
      derived_competitor_prices_def calculate_price_def temp_f_def weather_conditions_def
      bad_weather_def py_max_def)

section \<open>Claims\<close>

text \<open>
  C3: for every base price, every weather dictionary (any JSON value at all) and every
  busy level, \<^verbatim>\<open>calculate_price\<close> on an empty list of competitor prices returns the
  base price unchanged, and raises nothing.
\<close>

theorem C3_empty_competitors_returns_base:
  "calculate_price base_price weather_data busy_level [] = Inr base_price"
  by (simp add: calculate_price_def)

text \<open>
  C8: \<^verbatim>\<open>kelvin_to_fahrenheit\<close> computes \<open>(k - 273.15) * 9/5 + 32\<close> for every \<open>k\<close>, which is
  \<open>32\<close> at \<open>273.15\<close> and \<open>212\<close> at \<open>373.15\<close>.
\<close>

theorem C8_kelvin_to_fahrenheit:
  "kelvin_to_fahrenheit k = (k - 273.15) * 9 / 5 + 32
   \<and> kelvin_to_fahrenheit 273.15 = 32
   \<and> kelvin_to_fahrenheit 373.15 = 212"
  by (simp add: kelvin_to_fahrenheit_def)

text \<open>
  C1: for a non-empty list of competitor prices and a weather dictionary whose temperature
  and condition can be read, if the temperature in Fahrenheit is below 45 or the condition
  is one of Rain, Snow, Thunderstorm, and the busy level is above 70, then
  \<^verbatim>\<open>calculate_price\<close> returns the larger of the base price and the lowest competitor
  price times \<open>1.1 + (busy_level - 70) / 100\<close>; the result is never below the base price.
\<close>

theorem C1_markup_branch:
  assumes "competitor_prices \<noteq> []"
    and "temp_f weather_data = Inr tf"
    and "weather_conditions weather_data = Inr cond"
    and "(tf < 45 \<or> bad_weather cond) \<and> busy_level > 70"
  shows "\<exists>r. calculate_price base_price weather_data busy_level competitor_prices = Inr r
     \<and> r = max (Min (set competitor_prices) * (1.1 + real_of_int (busy_level - 70) / 100))
             base_price
     \<and> base_price \<le> r"
  using assms by (simp add: calculate_price_nonempty)

theorem C1_markup_branch_witness:
  "[12, 10, 11] \<noteq> ([]::real list)
   \<and> temp_f (JDict [(''temp'', JNum 273.15)]) = Inr 32
   \<and> weather_conditions (JDict [(''temp'', JNum 273.15)]) = Inr (JStr ''Clear'')
   \<and> ((32::real) < 45 \<or> bad_weather (JStr ''Clear'')) \<and> (90::int) > 70
   \<and> calculate_price 9 (JDict [(''temp'', JNum 273.15)]) 90 [12, 10, 11] = Inr 13"
proof -
  have h1: "[12, 10, 11] \<noteq> ([]::real list)" by simp
  have h2: "temp_f (JDict [(''temp'', JNum 273.15)]) = Inr 32"
    by (simp add: temp_f_def)
  have h3: "weather_conditions (JDict [(''temp'', JNum 273.15)]) = Inr (JStr ''Clear'')"
    by (simp add: weather_conditions_def)
  have h4: "((32::real) < 45 \<or> bad_weather (JStr ''Clear'')) \<and> (90::int) > 70" by simp
  from C1_markup_branch [OF h1 h2 h3 h4, of 9]
  have "calculate_price 9 (JDict [(''temp'', JNum 273.15)]) 90 [12, 10, 11] = Inr 13"
    by simp
  with h1 h2 h3 h4 show ?thesis by simp
qed

text \<open>
  C2: for a non-empty list of competitor prices, every base price and every busy level, if
  the condition read from the weather dictionary is none of Rain, Snow, Thunderstorm and
  the temperature in Fahrenheit is at least 45, \<^verbatim>\<open>calculate_price\<close> returns exactly the
  lowest competitor price.
\<close>

theorem C2_normal_conditions:
  assumes "competitor_prices \<noteq> []"
    and "temp_f weather_data = Inr tf"
    and "weather_conditions weather_data = Inr cond"
    and "\<not> bad_weather cond"
    and "tf \<ge> 45"
  shows "calculate_price base_price weather_data busy_level competitor_prices =
     Inr (Min (set competitor_prices))"
  using assms by (simp add: calculate_price_nonempty)

theorem C2_normal_conditions_witness:
  "[8, 7.5] \<noteq> ([]::real list)
   \<and> temp_f (JDict [(''temp'', JNum 293.15), (''weather'', JList [JDict [(''main'', JStr ''Clouds'')]])]) = Inr 68
   \<and> weather_conditions (JDict [(''temp'', JNum 293.15), (''weather'', JList [JDict [(''main'', JStr ''Clouds'')]])])
       = Inr (JStr ''Clouds'')
   \<and> \<not> bad_weather (JStr ''Clouds'') \<and> (68::real) \<ge> 45
   \<and> calculate_price 20 (JDict [(''temp'', JNum 293.15), (''weather'', JList [JDict [(''main'', JStr ''Clouds'')]])])
        100 [8, 7.5] = Inr 7.5"
proof -
  let ?w = "JDict [(''temp'', JNum 293.15), (''weather'', JList [JDict [(''main'', JStr ''Clouds'')]])]"
  have h1: "[8, 7.5] \<noteq> ([]::real list)" by simp
  have h2: "temp_f ?w = Inr 68"
    by (simp add: temp_f_def)
  have h3: "weather_conditions ?w = Inr (JStr ''Clouds'')"
    by (simp add: weather_conditions_def)
  have h4: "\<not> bad_weather (JStr ''Clouds'')" by (simp add: bad_weather_def)
  have h5: "(68::real) \<ge> 45" by simp
  from C2_normal_conditions [OF h1 h2 h3 h4 h5, of 20 100]
  have "calculate_price 20 ?w 100 [8, 7.5] = Inr 7.5"
    by simp
  with h1 h2 h3 h4 h5 show ?thesis by simp
qed

text \<open>
  C6: at a busy level of exactly 70 the test \<^verbatim>\<open>busy_level > 70\<close> fails, so for a non-empty
  list and every weather dictionary whose temperature and condition can be read (cold,
  rainy or not) \<^verbatim>\<open>calculate_price\<close> returns the lowest competitor price.
\<close>

theorem C6_busy_70_no_markup:
  assumes "competitor_prices \<noteq> []"
    and "temp_f weather_data = Inr tf"
    and "weather_conditions weather_data = Inr cond"
  shows "calculate_price base_price weather_data 70 competitor_prices =
     Inr (Min (set competitor_prices))"
  using assms by (simp add: calculate_price_nonempty)

theorem C6_busy_70_no_markup_witness:
  "[5, 6] \<noteq> ([]::real list)
   \<and> temp_f (JDict [(''temp'', JNum 263.15), (''weather'', JList [JDict [(''main'', JStr ''Snow'')]])]) = Inr 14
   \<and> weather_conditions (JDict [(''temp'', JNum 263.15), (''weather'', JList [JDict [(''main'', JStr ''Snow'')]])])
       = Inr (JStr ''Snow'')
   \<and> (14::real) < 45 \<and> bad_weather (JStr ''Snow'')
   \<and> calculate_price 30 (JDict [(''temp'', JNum 263.15), (''weather'', JList [JDict [(''main'', JStr ''Snow'')]])])
        70 [5, 6] = Inr 5"
proof -
  let ?w = "JDict [(''temp'', JNum 263.15), (''weather'', JList [JDict [(''main'', JStr ''Snow'')]])]"
  have h1: "[5, 6] \<noteq> ([]::real list)" by simp
  have h2: "temp_f ?w = Inr 14"
    by (simp add: temp_f_def)
  have h3: "weather_conditions ?w = Inr (JStr ''Snow'')"
    by (simp add: weather_conditions_def)
  have h4: "bad_weather (JStr ''Snow'')" by (simp add: bad_weather_def)
  from C6_busy_70_no_markup [OF h1 h2 h3, of 30]
  have "calculate_price 30 ?w 70 [5, 6] = Inr 5"
    by simp
  with h1 h2 h3 h4 show ?thesis by simp
qed

text \<open>
  C10: a weather dictionary with neither a \<^verbatim>\<open>'temp'\<close> nor a \<^verbatim>\<open>'weather'\<close> key is read as
  293.15 K, that is 68 degrees Fahrenheit, and as the condition Clear, which is not
  adverse; for a non-empty list, every base price and every busy level the result is the
  lowest competitor price.
\<close>

theorem C10_missing_keys_default:
  assumes "competitor_prices \<noteq> []"
    and "map_of kvs ''temp'' = None"
    and "map_of kvs ''weather'' = None"
  shows "temp_f (JDict kvs) = Inr 68
     \<and> weather_conditions (JDict kvs) = Inr (JStr ''Clear'')
     \<and> \<not> bad_weather (JStr ''Clear'')
     \<and> calculate_price base_price (JDict kvs) busy_level competitor_prices =
         Inr (Min (set competitor_prices))"
  using assms
  by (simp add: calculate_price_nonempty temp_f_no_temp weather_conditions_no_weather
      not_bad_weather_Clear)

theorem C10_missing_keys_default_witness:
  "[4, 3, 9] \<noteq> ([]::real list)
   \<and> map_of [(''humidity'', JNum 81)] ''temp'' = None
   \<and> map_of [(''humidity'', JNum 81)] ''weather'' = None
   \<and> calculate_price 2 (JDict [(''humidity'', JNum 81)]) 100 [4, 3, 9] = Inr 3"
proof -
  have h1: "[4, 3, 9] \<noteq> ([]::real list)" by simp
  have h2: "map_of [(''humidity'', JNum 81)] ''temp'' = None" by simp
  have h3: "map_of [(''humidity'', JNum 81)] ''weather'' = None" by simp
  from C10_missing_keys_default [OF h1 h2 h3, of 2 100]
  have "calculate_price 2 (JDict [(''humidity'', JNum 81)]) 100 [4, 3, 9] = Inr 3"
    by simp
  with h1 h2 h3 show ?thesis by simp
qed






text \<open>
  C7: for every sequence of menu items, when the loop completes its output lists, in the
  input order, exactly the items whose derived competitor price list is not empty; an
  item with an empty list gets no entry at all. Each entry carries the item's name and
  price, the price returned by \<^verbatim>\<open>calculate_price\<close> and the change
  \<open>(new_price - price) / price * 100\<close>. The loop does complete when no item has price
  zero, the competitor prices can be derived and the temperature and condition can be read
  from the \<^verbatim>\<open>'main'\<close> entry of the weather response.
\<close>

theorem C7_menu_items_loop:
  "(\<forall>out. menu_items_loop items nearby weather_data busy [] = Some out \<longrightarrow>
      list_all2 (reported_for nearby weather_data busy) out
        (filter (has_competitor_data nearby) items))
   \<and> ((\<forall>item\<in>set items. price item \<noteq> 0
             \<and> derived_competitor_prices (price item) nearby \<noteq> None)
        \<and> (\<exists>main tf cond. dict_get weather_data ''main'' (JDict []) = Inr main
               \<and> temp_f main = Inr tf \<and> weather_conditions main = Inr cond)
       \<longrightarrow> (\<exists>out. menu_items_loop items nearby weather_data busy [] = Some out))"
proof (intro conjI allI impI)
  fix out
  assume "menu_items_loop items nearby weather_data busy [] = Some out"
  from menu_items_loop_acc [OF this] show
    "list_all2 (reported_for nearby weather_data busy) out
       (filter (has_competitor_data nearby) items)"
    by simp
next
  assume h: "(\<forall>item\<in>set items. price item \<noteq> 0
             \<and> derived_competitor_prices (price item) nearby \<noteq> None)
        \<and> (\<exists>main tf cond. dict_get weather_data ''main'' (JDict []) = Inr main
               \<and> temp_f main = Inr tf \<and> weather_conditions main = Inr cond)"
  then obtain main tf cond where
    "dict_get weather_data ''main'' (JDict []) = Inr main"
    "temp_f main = Inr tf" "weather_conditions main = Inr cond"
    by blast
  with h show "\<exists>out. menu_items_loop items nearby weather_data busy [] = Some out"
    using menu_items_loop_returns by blast
qed


theorem C7_menu_items_loop_witness:
  "menu_items_loop [\<lparr>name = ''Naan'', price = 4\<rparr>, \<lparr>name = ''Dal'', price = 12\<rparr>]
     (JDict [(''results'', JList [JDict [(''name'', JStr ''B'')],
                                  JDict [(''price_level'', JNum 4)]])])
     (JDict [(''main'', JDict [(''temp'', JNum 273.15)])]) 75 []
   = Some [\<lparr>item_name = ''Naan'', original_price = 4, new_price = 9.2, price_change = 130\<rparr>,
           \<lparr>item_name = ''Dal'', original_price = 12, new_price = 27.6, price_change = 130\<rparr>]
   \<and> filter (has_competitor_data
         (JDict [(''results'', JList [JDict [(''name'', JStr ''B'')],
                                      JDict [(''price_level'', JNum 4)]])]))
       [\<lparr>name = ''Naan'', price = 4\<rparr>, \<lparr>name = ''Dal'', price = 12\<rparr>]
     = [\<lparr>name = ''Naan'', price = 4\<rparr>, \<lparr>name = ''Dal'', price = 12\<rparr>]
   \<and> list_all2
       (reported_for
         (JDict [(''results'', JList [JDict [(''name'', JStr ''B'')],
                                      JDict [(''price_level'', JNum 4)]])])
         (JDict [(''main'', JDict [(''temp'', JNum 273.15)])]) 75)
       [\<lparr>item_name = ''Naan'', original_price = 4, new_price = 9.2, price_change = 130\<rparr>,
        \<lparr>item_name = ''Dal'', original_price = 12, new_price = 27.6, price_change = 130\<rparr>]
       [\<lparr>name = ''Naan'', price = 4\<rparr>, \<lparr>name = ''Dal'', price = 12\<rparr>]
   \<and> menu_items_loop [\<lparr>name = ''Naan'', price = 4\<rparr>, \<lparr>name = ''Dal'', price = 12\<rparr>]
       (JDict [(''results'', JList [JDict [(''name'', JStr ''B'')]])])
       (JDict [(''main'', JDict [(''temp'', JNum 273.15)])]) 75 []
     = Some []"
proof -
  let ?items = "[\<lparr>name = ''Naan'', price = 4\<rparr>, \<lparr>name = ''Dal'', price = 12\<rparr>]"
  let ?nearby = "JDict [(''results'', JList [JDict [(''name'', JStr ''B'')],
                                            JDict [(''price_level'', JNum 4)]])]"
  let ?wd = "JDict [(''main'', JDict [(''temp'', JNum 273.15)])]"
  let ?out = "[\<lparr>item_name = ''Naan'', original_price = 4, new_price = 9.2, price_change = 130\<rparr>,
        \<lparr>item_name = ''Dal'', original_price = 12, new_price = 27.6, price_change = 130\<rparr>]"
  have d: "\<And>p. derived_competitor_prices p ?nearby = Some [p * 2]"
    by (simp add: derived_competitor_prices_def)
  have run: "menu_items_loop ?items ?nearby ?wd 75 [] = Some ?out"
    by (simp add: d calculate_price_def temp_f_def weather_conditions_def bad_weather_def
        py_max_def)
  have inc: "filter (has_competitor_data ?nearby) ?items = ?items"
    by (simp add: has_competitor_data_def d)
  from C7_menu_items_loop [of ?items ?nearby ?wd 75] run
  have "list_all2 (reported_for ?nearby ?wd 75) ?out (filter (has_competitor_data ?nearby) ?items)"
    by blast
  moreover have "menu_items_loop ?items
      (JDict [(''results'', JList [JDict [(''name'', JStr ''B'')]])]) ?wd 75 [] = Some []"
    by (simp add: derived_competitor_prices_def)
  ultimately show ?thesis using run inc by simp
qed

text \<open>
  C9: the view hands \<^verbatim>\<open>weather_data.get('main', {})\<close> to \<^verbatim>\<open>calculate_price\<close>. When that
  dictionary has no \<^verbatim>\<open>'weather'\<close> key, the condition read from it is Clear, which is not
  adverse; every price in the view's output is then the marked-up price (markup 1.15 at
  the busy level 75) exactly when the temperature is below 45 degrees Fahrenheit and
  the lowest competitor price otherwise; and the output is the same for every response
  with this \<^verbatim>\<open>'main'\<close> entry, whatever its own \<^verbatim>\<open>'weather'\<close> entry says.
\<close>

theorem C9_view_condition_unreachable:
  assumes "dict_get weather_data ''main'' (JDict []) = Inr (JDict kvs)"
    and "map_of kvs ''weather'' = None"
  shows "weather_conditions (JDict kvs) = Inr (JStr ''Clear'')
     \<and> \<not> bad_weather (JStr ''Clear'')
     \<and> (\<forall>out. view_menu_items result nearby weather_data place_id = Some out \<longrightarrow>
          (\<forall>q\<in>set out. \<exists>cps tf.
              derived_competitor_prices (original_price q) nearby = Some cps \<and> cps \<noteq> []
              \<and> temp_f (JDict kvs) = Inr tf
              \<and> new_price q =
                  (if tf < 45 then max (Min (set cps) * 1.15) (original_price q)
                   else Min (set cps))))
     \<and> (\<forall>weather_data'. dict_get weather_data' ''main'' (JDict []) = Inr (JDict kvs) \<longrightarrow>
          view_menu_items result nearby weather_data' place_id =
          view_menu_items result nearby weather_data place_id)"
proof (intro conjI allI impI ballI)
  show clear: "weather_conditions (JDict kvs) = Inr (JStr ''Clear'')"
    using assms(2) by (rule weather_conditions_no_weather)
  show "\<not> bad_weather (JStr ''Clear'')"
    by (rule not_bad_weather_Clear)
next
  fix out q
  assume view: "view_menu_items result nearby weather_data place_id = Some out"
    and q: "q \<in> set out"
  have clear: "weather_conditions (JDict kvs) = Inr (JStr ''Clear'')"
    using assms(2) by (rule weather_conditions_no_weather)
  from view q have "menu_items_loop sample_menu_items nearby weather_data 75 [] = Some out"
    by (auto simp: view_menu_items_def get_place_busy_times_def split: sum.splits if_splits)
  from menu_items_loop_acc [OF this]
  have all: "list_all2 (reported_for nearby weather_data 75) out
      (filter (has_competitor_data nearby) sample_menu_items)"
    by simp
  from list_all2_member [OF all q] obtain item where
    item: "item \<in> set (filter (has_competitor_data nearby) sample_menu_items)" and
    rep: "reported_for nearby weather_data 75 q item"
    by blast
  from item have "has_competitor_data nearby item" by simp
  then obtain cps where
    cps: "derived_competitor_prices (price item) nearby = Some cps" and ne: "cps \<noteq> []"
    using has_competitor_data_nonempty by blast
  from rep cps assms(1) have
    orig: "original_price q = price item" and
    calc: "calculate_price (price item) (JDict kvs) 75 cps = Inr (new_price q)"
    by (simp_all add: reported_for_def)
  from calculate_price_reads_temp [OF calc ne] obtain tf where
    tf: "temp_f (JDict kvs) = Inr tf" by blast
  from calculate_price_nonempty [OF ne tf clear, of "price item" 75] calc
  have "new_price q =
      (if tf < 45 then max (Min (set cps) * 1.15) (price item) else Min (set cps))"
    by (simp add: not_bad_weather_Clear)
  with cps ne tf orig show "\<exists>cps tf.
      derived_competitor_prices (original_price q) nearby = Some cps \<and> cps \<noteq> []
      \<and> temp_f (JDict kvs) = Inr tf
      \<and> new_price q =
          (if tf < 45 then max (Min (set cps) * 1.15) (original_price q) else Min (set cps))"
    by auto
next
  fix weather_data'
  assume "dict_get weather_data' ''main'' (JDict []) = Inr (JDict kvs)"
  with assms(1) have "dict_get weather_data' ''main'' (JDict [])
      = dict_get weather_data ''main'' (JDict [])"
    by simp
  then have same: "\<And>busy. menu_items_loop sample_menu_items nearby weather_data' busy []
      = menu_items_loop sample_menu_items nearby weather_data busy []"
    by (rule menu_items_loop_main_only)
  show "view_menu_items result nearby weather_data' place_id =
        view_menu_items result nearby weather_data place_id"
    by (simp add: view_menu_items_def same split: sum.splits)
qed

theorem C9_view_condition_unreachable_witness:
  "dict_get (JDict [(''main'', JDict [(''temp'', JNum 293.15), (''humidity'', JNum 80)]),
                    (''weather'', JList [JDict [(''main'', JStr ''Rain'')]])])
     ''main'' (JDict [])
     = Inr (JDict [(''temp'', JNum 293.15), (''humidity'', JNum 80)])
   \<and> map_of [(''temp'', JNum 293.15), (''humidity'', JNum 80)] ''weather'' = None
   \<and> weather_conditions (JDict [(''temp'', JNum 293.15), (''humidity'', JNum 80)])
       = Inr (JStr ''Clear'')
   \<and> view_menu_items (JDict [(''photos'', JList [JDict []])])
       (JDict [(''results'', JList [JDict [(''price_level'', JNum 4)]])])
       (JDict [(''main'', JDict [(''temp'', JNum 293.15), (''humidity'', JNum 80)]),
               (''weather'', JList [JDict [(''main'', JStr ''Rain'')]])])
       ''place''
     = view_menu_items (JDict [(''photos'', JList [JDict []])])
       (JDict [(''results'', JList [JDict [(''price_level'', JNum 4)]])])
       (JDict [(''main'', JDict [(''temp'', JNum 293.15), (''humidity'', JNum 80)])])
       ''place''"
proof -
  let ?kvs = "[(''temp'', JNum 293.15), (''humidity'', JNum 80)]"
  let ?wd = "JDict [(''main'', JDict ?kvs),
                    (''weather'', JList [JDict [(''main'', JStr ''Rain'')]])]"
  let ?wd' = "JDict [(''main'', JDict ?kvs)]"
  have h1: "dict_get ?wd ''main'' (JDict []) = Inr (JDict ?kvs)" by simp
  have h2: "map_of ?kvs ''weather'' = None" by simp
  have h3: "dict_get ?wd' ''main'' (JDict []) = Inr (JDict ?kvs)" by simp
  note th = C9_view_condition_unreachable [OF h3 h2,
      of "JDict [(''photos'', JList [JDict []])]"
         "JDict [(''results'', JList [JDict [(''price_level'', JNum 4)]])]" "''place''"]
  from th have "weather_conditions (JDict ?kvs) = Inr (JStr ''Clear'')" by blast
  moreover from th h1 have
    "view_menu_items (JDict [(''photos'', JList [JDict []])])
       (JDict [(''results'', JList [JDict [(''price_level'', JNum 4)]])]) ?wd ''place''
     = view_menu_items (JDict [(''photos'', JList [JDict []])])
       (JDict [(''results'', JList [JDict [(''price_level'', JNum 4)]])]) ?wd' ''place''"
    by blast
  ultimately show ?thesis using h1 h2 by simp
qed

end
